theory Spec2Isabelle
  imports Main "HOL-Library.Word"
begin

section \<open>JavaScript values seen by the client\<close>

text \<open>
  The error translator takes \<^verbatim>\<open>error: any\<close> and the transport resolves or rejects with
  whatever it was given, so failures and responses are JavaScript values. The model covers
  the data values: the primitives, arrays and plain objects (own data properties, first
  binding of a key wins; no functions, so no property of an object is callable).

  A number is a whole number or one of the three non-finite ones; fractions are left out.
  The whole numbers are the ones of the range in which a double holds every integer and a
  template literal prints all its decimal digits: from \<open>-2^53\<close> to \<open>2^53 - 1\<close>, held as
  a 54-bit word read as a signed integer (\<open>sint\<close>). No arithmetic is done on them; a
  numeral outside the range names the value of the range it wraps to, and the numbers
  outside the range are not modelled.
\<close>

datatype number = Whole "54 word" | NaN | PosInfinity | NegInfinity

datatype jsval =
    JUndefined
  | JNull
  | JBool bool
  | JNum number
  | JStr string
  | JArr "jsval list"
  | JObj "(string \<times> jsval) list"

text \<open>
  What a call throws: \<^verbatim>\<open>new Error(message)\<close>, or the engine's own TypeError, for reading
  a property of \<^verbatim>\<open>undefined\<close> or \<^verbatim>\<open>null\<close> and for a value that cannot be converted to
  text.
\<close>

datatype thrown = Error string | TypeError

text \<open>
  Reading \<^verbatim>\<open>v.p\<close>. On \<^verbatim>\<open>undefined\<close> and \<^verbatim>\<open>null\<close> the read raises (\<open>None\<close>); on an
  object it is the bound value, or \<^verbatim>\<open>undefined\<close> for a missing key; on arrays and on
  the other primitives none of the names this program reads (\<^verbatim>\<open>response\<close>, \<^verbatim>\<open>request\<close>,
  \<^verbatim>\<open>message\<close>, \<^verbatim>\<open>status\<close>, \<^verbatim>\<open>data\<close>) exists, so the read is \<^verbatim>\<open>undefined\<close>.
\<close>

fun get_property :: "jsval \<Rightarrow> string \<Rightarrow> jsval option" where
  "get_property JUndefined p = None"
| "get_property JNull p = None"
| "get_property (JObj fs) p = (case map_of fs p of None \<Rightarrow> Some JUndefined | Some v \<Rightarrow> Some v)"
| "get_property v p = Some JUndefined"

text \<open>The truth value an \<^verbatim>\<open>if\<close> gives a value.\<close>

fun truthy :: "jsval \<Rightarrow> bool" where
  "truthy JUndefined = False"
| "truthy JNull = False"
| "truthy (JBool b) = b"
| "truthy (JNum n) = (n \<noteq> Whole 0 \<and> n \<noteq> NaN)"
| "truthy (JStr s) = (s \<noteq> [])"
| "truthy (JArr xs) = True"
| "truthy (JObj fs) = True"

text \<open>
  Decimal digits of a natural number, and the text a template literal gives a number:
  for a whole number of this range its sign and decimal digits.
\<close>

fun digits :: "nat \<Rightarrow> string" where
  "digits n = (if n < 10 then [''0123456789'' ! n]
               else digits (n div 10) @ [''0123456789'' ! (n mod 10)])"

declare digits.simps [simp del]

fun number_text :: "number \<Rightarrow> string" where
  "number_text (Whole w) =
     (if sint w < 0 then ''-'' @ digits (nat (- sint w)) else digits (nat (sint w)))"
| "number_text NaN = ''NaN''"
| "number_text PosInfinity = ''Infinity''"
| "number_text NegInfinity = ''-Infinity''"

fun join :: "string \<Rightarrow> string list \<Rightarrow> string" where
  "join sep [] = []"
| "join sep [x] = x"
| "join sep (x # y # ys) = x @ sep @ join sep (y # ys)"

text \<open>
  The text \<^verbatim>\<open>${v}\<close> interpolates into a template literal, \<open>None\<close> when the conversion
  raises a TypeError. An object is converted by its \<^verbatim>\<open>toString\<close> method, then by its
  \<^verbatim>\<open>valueOf\<close>: an object without an own \<^verbatim>\<open>toString\<close> property inherits the one that
  answers \<^verbatim>\<open>[object Object]\<close>; an own \<^verbatim>\<open>toString\<close> property hides it and is not callable,
  \<^verbatim>\<open>valueOf\<close> (inherited, or own and not callable) gives no primitive, and the conversion
  raises. An array is its elements joined by commas, \<^verbatim>\<open>undefined\<close> and \<^verbatim>\<open>null\<close> elements
  giving the empty text, and raises when an element does.
\<close>

fun to_string :: "jsval \<Rightarrow> string option" where
  "to_string JUndefined = Some ''undefined''"
| "to_string JNull = Some ''null''"
| "to_string (JBool b) = Some (if b then ''true'' else ''false'')"
| "to_string (JNum n) = Some (number_text n)"
| "to_string (JStr s) = Some s"
| "to_string (JArr xs) =
     map_option (join '','')
       (those (map (\<lambda>x. if x = JUndefined \<or> x = JNull then Some [] else to_string x) xs))"
| "to_string (JObj fs) =
     (if ''toString'' \<in> fst ` set fs then None else Some ''[object Object]'')"

section \<open>Avatar URLs\<close>

text \<open>
  \<^verbatim>\<open>getAvatarUrl(avatar_id, thumbnail = false)\<close>: the flag is optional, \<open>None\<close> is the
  omitted argument.
\<close>

definition getAvatarUrl :: "string \<Rightarrow> bool option \<Rightarrow> string" where
  "getAvatarUrl avatar_id thumbnail_arg =
     (let thumbnail = (case thumbnail_arg of None \<Rightarrow> False | Some b \<Rightarrow> b);
          base = ''https://sleepercdn.com/avatars''
      in if thumbnail then base @ ''/thumbs/'' @ avatar_id else base @ ''/'' @ avatar_id)"

section \<open>The error translator\<close>

text \<open>
  \<^verbatim>\<open>axios.isAxiosError(payload)\<close> is the library's test: the payload is an object whose
  \<^verbatim>\<open>isAxiosError\<close> property is strictly \<^verbatim>\<open>true\<close> (the repository's tests build their
  transport failures with that flag).
\<close>

fun isAxiosError :: "jsval \<Rightarrow> bool" where
  "isAxiosError (JObj fs) = (map_of fs ''isAxiosError'' = Some (JBool True))"
| "isAxiosError v = False"

text \<open>
  \<^verbatim>\<open>handleError(error: any): never\<close>. The result is a completion: \<open>Inl\<close> what was thrown,
  \<open>Inr\<close> a normal return. The \<^verbatim>\<open>switch\<close> compares with strict equality, so only the
  number itself matches a case. A template literal whose value cannot be converted to text
  raises before \<^verbatim>\<open>new Error\<close> is reached.
\<close>

definition handleError :: "jsval \<Rightarrow> thrown + jsval" where
  "handleError error =
     (if isAxiosError error then
        (case get_property error ''response'' of
           None \<Rightarrow> Inl TypeError
         | Some response \<Rightarrow>
             if truthy response then
               (case get_property response ''status'' of
                  None \<Rightarrow> Inl TypeError
                | Some status \<Rightarrow>
                    if status = JNum (Whole 400) then
                      Inl (Error ''Bad Request: Your request is invalid.'')
                    else if status = JNum (Whole 404) then
                      Inl (Error ''Not Found: The requested resource could not be found.'')
                    else if status = JNum (Whole 429) then
                      Inl (Error ''Too Many Requests: You are being rate limited.'')
                    else if status = JNum (Whole 500) then
                      Inl (Error ''Internal Server Error: Problem with the server.'')
                    else if status = JNum (Whole 503) then
                      Inl (Error ''Service Unavailable: The service is temporarily offline.'')
                    else
                      (case to_string status of
                         None \<Rightarrow> Inl TypeError
                       | Some text \<Rightarrow> Inl (Error (''Unexpected Error: '' @ text))))
             else
               (case get_property error ''request'' of
                  None \<Rightarrow> Inl TypeError
                | Some request \<Rightarrow>
                    if truthy request then
                      Inl (Error ''No response received from the server.'')
                    else
                      (case get_property error ''message'' of
                         None \<Rightarrow> Inl TypeError
                       | Some message \<Rightarrow>
                           (case to_string message of
                              None \<Rightarrow> Inl TypeError
                            | Some text \<Rightarrow> Inl (Error (''Axios Error: '' @ text))))))
      else
        (case get_property error ''message'' of
           None \<Rightarrow> Inl TypeError
         | Some message \<Rightarrow>
             (case to_string message of
                None \<Rightarrow> Inl TypeError
              | Some text \<Rightarrow> Inl (Error (''Unexpected Error: '' @ text)))))"

section \<open>The transport and the client\<close>

text \<open>
  One call of \<^verbatim>\<open>axiosInstance.get\<close>: the path, and the configuration object when the
  accessor passes one (\<open>None\<close> for a call with the path alone).
\<close>

record request =
  url :: string
  config :: "jsval option"

text \<open>
  How the promise returned by the transport settles. A call that throws at once is caught
  by the same \<^verbatim>\<open>try\<close> and is a rejection too.
\<close>

datatype settled = Fulfills jsval | Rejects jsval | Pending

type_synonym transport = "request \<Rightarrow> settled"

text \<open>How the promise returned by an accessor settles.\<close>

datatype outcome = Resolved jsval | Rejected thrown | Unsettled

text \<open>
  The text the JavaScript engine puts in the TypeError it raises when a property of
  \<^verbatim>\<open>undefined\<close> or \<^verbatim>\<open>null\<close> is read, as a function of that value. The program does not
  fix it, so the accessors take it as a parameter.
\<close>

type_synonym engine = "jsval \<Rightarrow> string"

record axios_config =
  baseURL :: string
  timeout :: nat

record SleeperAPI =
  axiosInstance :: transport

definition BASE_URL :: string where
  "BASE_URL = ''https://api.sleeper.app/v1''"

text \<open>
  The constructor: the injected transport when there is one, else the one the library's
  \<^verbatim>\<open>axios.create\<close> (the parameter \<open>create\<close>) builds for the base URL and a timeout of
  ten seconds.
\<close>

definition new_SleeperAPI :: "(axios_config \<Rightarrow> transport) \<Rightarrow> transport option \<Rightarrow> SleeperAPI" where
  "new_SleeperAPI create axiosInstance_arg =
     \<lparr>axiosInstance =
        (case axiosInstance_arg of
           Some t \<Rightarrow> t
         | None \<Rightarrow> create \<lparr>baseURL = BASE_URL, timeout = 10000\<rparr>)\<rparr>"

text \<open>
  The \<^verbatim>\<open>catch\<close> block of every accessor is \<^verbatim>\<open>this.handleError(error)\<close> and nothing
  else: what the translator throws rejects the accessor's promise; were the translator to
  return, the accessor would fall off its end and resolve with \<^verbatim>\<open>undefined\<close>.
\<close>

definition catch_block :: "jsval \<Rightarrow> outcome" where
  "catch_block error =
     (case handleError error of Inl t \<Rightarrow> Rejected t | Inr v \<Rightarrow> Resolved JUndefined)"

text \<open>
  The body every accessor repeats:
  \<^verbatim>\<open>try { const response = await this.axiosInstance.get(...); return response.data; }
  catch (error) { this.handleError(error); }\<close>
  The list is the record of the calls made to the transport (what the tests' stub counts);
  the call is appended to it. Reading \<^verbatim>\<open>data\<close> from \<^verbatim>\<open>undefined\<close> or \<^verbatim>\<open>null\<close> raises a
  TypeError inside the \<^verbatim>\<open>try\<close>, which the \<^verbatim>\<open>catch\<close> hands to the translator as an
  error object with the engine's message.
\<close>

definition get_data :: "engine \<Rightarrow> SleeperAPI \<Rightarrow> request \<Rightarrow> request list \<Rightarrow> outcome \<times> request list" where
  "get_data eng api req calls =
     (let calls' = calls @ [req] in
      case axiosInstance api req of
        Pending \<Rightarrow> (Unsettled, calls')
      | Rejects error \<Rightarrow> (catch_block error, calls')
      | Fulfills response \<Rightarrow>
          (case get_property response ''data'' of
             Some d \<Rightarrow> (Resolved d, calls')
           | None \<Rightarrow> (catch_block (JObj [(''message'', JStr (eng response))]), calls')))"

text \<open>An optional \<^verbatim>\<open>sport\<close> argument with its default.\<close>

definition sport_or_default :: "string option \<Rightarrow> string" where
  "sport_or_default sport_arg = (case sport_arg of None \<Rightarrow> ''nfl'' | Some s \<Rightarrow> s)"

datatype trending_type = Add | Drop

fun trending_text :: "trending_type \<Rightarrow> string" where
  "trending_text Add = ''add''"
| "trending_text Drop = ''drop''"

subsection \<open>The accessors\<close>

definition getUserByUsername :: "engine \<Rightarrow> SleeperAPI \<Rightarrow> string \<Rightarrow> request list \<Rightarrow> outcome \<times> request list" where
  "getUserByUsername eng api username =
     get_data eng api \<lparr>url = ''/user/'' @ username, config = None\<rparr>"

definition getUserById :: "engine \<Rightarrow> SleeperAPI \<Rightarrow> string \<Rightarrow> request list \<Rightarrow> outcome \<times> request list" where
  "getUserById eng api userId =
     get_data eng api \<lparr>url = ''/user/'' @ userId, config = None\<rparr>"

definition getLeaguesForUser :: "engine \<Rightarrow> SleeperAPI \<Rightarrow> string \<Rightarrow> string option \<Rightarrow> string \<Rightarrow> request list \<Rightarrow> outcome \<times> request list" where
  "getLeaguesForUser eng api userId sport_arg season =
     (let sport = sport_or_default sport_arg in
      get_data eng api
        \<lparr>url = ''/user/'' @ userId @ ''/leagues/'' @ sport @ ''/'' @ season, config = None\<rparr>)"

definition getLeague :: "engine \<Rightarrow> SleeperAPI \<Rightarrow> string \<Rightarrow> request list \<Rightarrow> outcome \<times> request list" where
  "getLeague eng api leagueId =
     get_data eng api \<lparr>url = ''/league/'' @ leagueId, config = None\<rparr>"

definition getRosters :: "engine \<Rightarrow> SleeperAPI \<Rightarrow> string \<Rightarrow> request list \<Rightarrow> outcome \<times> request list" where
  "getRosters eng api leagueId =
     get_data eng api \<lparr>url = ''/league/'' @ leagueId @ ''/rosters'', config = None\<rparr>"

definition getUsersInLeague :: "engine \<Rightarrow> SleeperAPI \<Rightarrow> string \<Rightarrow> request list \<Rightarrow> outcome \<times> request list" where
  "getUsersInLeague eng api leagueId =
     get_data eng api \<lparr>url = ''/league/'' @ leagueId @ ''/users'', config = None\<rparr>"

definition getMatchups :: "engine \<Rightarrow> SleeperAPI \<Rightarrow> string \<Rightarrow> number \<Rightarrow> request list \<Rightarrow> outcome \<times> request list" where
  "getMatchups eng api leagueId week =
     get_data eng api
       \<lparr>url = ''/league/'' @ leagueId @ ''/matchups/'' @ number_text week, config = None\<rparr>"

definition getWinnersBracket :: "engine \<Rightarrow> SleeperAPI \<Rightarrow> string \<Rightarrow> request list \<Rightarrow> outcome \<times> request list" where
  "getWinnersBracket eng api leagueId =
     get_data eng api \<lparr>url = ''/league/'' @ leagueId @ ''/winners_bracket'', config = None\<rparr>"

definition getLosersBracket :: "engine \<Rightarrow> SleeperAPI \<Rightarrow> string \<Rightarrow> request list \<Rightarrow> outcome \<times> request list" where
  "getLosersBracket eng api leagueId =
     get_data eng api \<lparr>url = ''/league/'' @ leagueId @ ''/losers_bracket'', config = None\<rparr>"

definition getTransactions :: "engine \<Rightarrow> SleeperAPI \<Rightarrow> string \<Rightarrow> number \<Rightarrow> request list \<Rightarrow> outcome \<times> request list" where
  "getTransactions eng api leagueId round =
     get_data eng api
       \<lparr>url = ''/league/'' @ leagueId @ ''/transactions/'' @ number_text round, config = None\<rparr>"

definition getTradedPicks :: "engine \<Rightarrow> SleeperAPI \<Rightarrow> string \<Rightarrow> request list \<Rightarrow> outcome \<times> request list" where
  "getTradedPicks eng api leagueId =
     get_data eng api \<lparr>url = ''/league/'' @ leagueId @ ''/traded_picks'', config = None\<rparr>"

definition getState :: "engine \<Rightarrow> SleeperAPI \<Rightarrow> string \<Rightarrow> request list \<Rightarrow> outcome \<times> request list" where
  "getState eng api sport =
     get_data eng api \<lparr>url = ''/state/'' @ sport, config = None\<rparr>"

definition getDraftsForUser :: "engine \<Rightarrow> SleeperAPI \<Rightarrow> string \<Rightarrow> string option \<Rightarrow> string \<Rightarrow> request list \<Rightarrow> outcome \<times> request list" where
  "getDraftsForUser eng api userId sport_arg season =
     (let sport = sport_or_default sport_arg in
      get_data eng api
        \<lparr>url = ''/user/'' @ userId @ ''/drafts/'' @ sport @ ''/'' @ season, config = None\<rparr>)"

definition getDraftsForLeague :: "engine \<Rightarrow> SleeperAPI \<Rightarrow> string \<Rightarrow> request list \<Rightarrow> outcome \<times> request list" where
  "getDraftsForLeague eng api leagueId =
     get_data eng api \<lparr>url = ''/league/'' @ leagueId @ ''/drafts'', config = None\<rparr>"

definition getDraft :: "engine \<Rightarrow> SleeperAPI \<Rightarrow> string \<Rightarrow> request list \<Rightarrow> outcome \<times> request list" where
  "getDraft eng api draftId =
     get_data eng api \<lparr>url = ''/draft/'' @ draftId, config = None\<rparr>"

definition getPicksInDraft :: "engine \<Rightarrow> SleeperAPI \<Rightarrow> string \<Rightarrow> request list \<Rightarrow> outcome \<times> request list" where
  "getPicksInDraft eng api draftId =
     get_data eng api \<lparr>url = ''/draft/'' @ draftId @ ''/picks'', config = None\<rparr>"

definition getTradedPicksInDraft :: "engine \<Rightarrow> SleeperAPI \<Rightarrow> string \<Rightarrow> request list \<Rightarrow> outcome \<times> request list" where
  "getTradedPicksInDraft eng api draftId =
     get_data eng api \<lparr>url = ''/draft/'' @ draftId @ ''/traded_picks'', config = None\<rparr>"

definition getAllPlayers :: "engine \<Rightarrow> SleeperAPI \<Rightarrow> string option \<Rightarrow> request list \<Rightarrow> outcome \<times> request list" where
  "getAllPlayers eng api sport_arg =
     (let sport = sport_or_default sport_arg in
      get_data eng api \<lparr>url = ''/players/'' @ sport, config = None\<rparr>)"

definition getTrendingPlayers :: "engine \<Rightarrow> SleeperAPI \<Rightarrow> string \<Rightarrow> trending_type \<Rightarrow> number option \<Rightarrow> number option \<Rightarrow> request list \<Rightarrow> outcome \<times> request list" where
  "getTrendingPlayers eng api sport type lookbackHours_arg limit_arg =
     (let lookbackHours = (case lookbackHours_arg of None \<Rightarrow> Whole 24 | Some n \<Rightarrow> n);
          limit = (case limit_arg of None \<Rightarrow> Whole 25 | Some n \<Rightarrow> n)
      in get_data eng api
           \<lparr>url = ''/players/'' @ sport @ ''/trending/'' @ trending_text type,
            config = Some (JObj [(''params'',
                       JObj [(''lookback_hours'', JNum lookbackHours),
                             (''limit'', JNum limit)])])\<rparr>)"

subsection \<open>The public surface as one function\<close>

text \<open>A call of one of the client's accessors, with its arguments.\<close>

datatype accessor_call =
    GetUserByUsername string
  | GetUserById string
  | GetLeaguesForUser string "string option" string
  | GetLeague string
  | GetRosters string
  | GetUsersInLeague string
  | GetMatchups string number
  | GetWinnersBracket string
  | GetLosersBracket string
  | GetTransactions string number
  | GetTradedPicks string
  | GetState string
  | GetDraftsForUser string "string option" string
  | GetDraftsForLeague string
  | GetDraft string
  | GetPicksInDraft string
  | GetTradedPicksInDraft string
  | GetAllPlayers "string option"
  | GetTrendingPlayers string trending_type "number option" "number option"

fun invoke :: "engine \<Rightarrow> SleeperAPI \<Rightarrow> accessor_call \<Rightarrow> request list \<Rightarrow> outcome \<times> request list" where
  "invoke eng api (GetUserByUsername username) = getUserByUsername eng api username"
| "invoke eng api (GetUserById userId) = getUserById eng api userId"
| "invoke eng api (GetLeaguesForUser userId sport season) = getLeaguesForUser eng api userId sport season"
| "invoke eng api (GetLeague leagueId) = getLeague eng api leagueId"
| "invoke eng api (GetRosters leagueId) = getRosters eng api leagueId"
| "invoke eng api (GetUsersInLeague leagueId) = getUsersInLeague eng api leagueId"
| "invoke eng api (GetMatchups leagueId week) = getMatchups eng api leagueId week"
| "invoke eng api (GetWinnersBracket leagueId) = getWinnersBracket eng api leagueId"
| "invoke eng api (GetLosersBracket leagueId) = getLosersBracket eng api leagueId"
| "invoke eng api (GetTransactions leagueId round) = getTransactions eng api leagueId round"
| "invoke eng api (GetTradedPicks leagueId) = getTradedPicks eng api leagueId"
| "invoke eng api (GetState sport) = getState eng api sport"
| "invoke eng api (GetDraftsForUser userId sport season) = getDraftsForUser eng api userId sport season"
| "invoke eng api (GetDraftsForLeague leagueId) = getDraftsForLeague eng api leagueId"
| "invoke eng api (GetDraft draftId) = getDraft eng api draftId"
| "invoke eng api (GetPicksInDraft draftId) = getPicksInDraft eng api draftId"
| "invoke eng api (GetTradedPicksInDraft draftId) = getTradedPicksInDraft eng api draftId"
| "invoke eng api (GetAllPlayers sport) = getAllPlayers eng api sport"
| "invoke eng api (GetTrendingPlayers sport type lookbackHours limit) =
     getTrendingPlayers eng api sport type lookbackHours limit"

text \<open>
  The request the specification's endpoint map gives each accessor call: the path template
  of its row with the identifiers inserted verbatim, \<^verbatim>\<open>sport\<close> defaulting to \<^verbatim>\<open>nfl\<close>,
  and for trending players the query parameters \<^verbatim>\<open>lookback_hours\<close> (default 24) and
  \<^verbatim>\<open>limit\<close> (default 25). This one is written from the specification's table, to be
  compared with the requests the accessors above build.
\<close>

definition query :: "number \<Rightarrow> number \<Rightarrow> jsval" where
  "query lookback lim =
     JObj [(''params'', JObj [(''lookback_hours'', JNum lookback), (''limit'', JNum lim)])]"

fun endpoint_map :: "accessor_call \<Rightarrow> request" where
  "endpoint_map (GetUserByUsername u) = \<lparr>url = ''/user/'' @ u, config = None\<rparr>"
| "endpoint_map (GetUserById u) = \<lparr>url = ''/user/'' @ u, config = None\<rparr>"
| "endpoint_map (GetLeaguesForUser u sp se) =
     \<lparr>url = ''/user/'' @ u @ ''/leagues/'' @ (case sp of None \<Rightarrow> ''nfl'' | Some s \<Rightarrow> s) @ ''/'' @ se,
      config = None\<rparr>"
| "endpoint_map (GetLeague l) = \<lparr>url = ''/league/'' @ l, config = None\<rparr>"
| "endpoint_map (GetRosters l) = \<lparr>url = ''/league/'' @ l @ ''/rosters'', config = None\<rparr>"
| "endpoint_map (GetUsersInLeague l) = \<lparr>url = ''/league/'' @ l @ ''/users'', config = None\<rparr>"
| "endpoint_map (GetMatchups l w) =
     \<lparr>url = ''/league/'' @ l @ ''/matchups/'' @ number_text w, config = None\<rparr>"
| "endpoint_map (GetWinnersBracket l) = \<lparr>url = ''/league/'' @ l @ ''/winners_bracket'', config = None\<rparr>"
| "endpoint_map (GetLosersBracket l) = \<lparr>url = ''/league/'' @ l @ ''/losers_bracket'', config = None\<rparr>"
| "endpoint_map (GetTransactions l r) =
     \<lparr>url = ''/league/'' @ l @ ''/transactions/'' @ number_text r, config = None\<rparr>"
| "endpoint_map (GetTradedPicks l) = \<lparr>url = ''/league/'' @ l @ ''/traded_picks'', config = None\<rparr>"
| "endpoint_map (GetState s) = \<lparr>url = ''/state/'' @ s, config = None\<rparr>"
| "endpoint_map (GetDraftsForUser u sp se) =
     \<lparr>url = ''/user/'' @ u @ ''/drafts/'' @ (case sp of None \<Rightarrow> ''nfl'' | Some s \<Rightarrow> s) @ ''/'' @ se,
      config = None\<rparr>"
| "endpoint_map (GetDraftsForLeague l) = \<lparr>url = ''/league/'' @ l @ ''/drafts'', config = None\<rparr>"
| "endpoint_map (GetDraft d) = \<lparr>url = ''/draft/'' @ d, config = None\<rparr>"
| "endpoint_map (GetPicksInDraft d) = \<lparr>url = ''/draft/'' @ d @ ''/picks'', config = None\<rparr>"
| "endpoint_map (GetTradedPicksInDraft d) = \<lparr>url = ''/draft/'' @ d @ ''/traded_picks'', config = None\<rparr>"
| "endpoint_map (GetAllPlayers sp) =
     \<lparr>url = ''/players/'' @ (case sp of None \<Rightarrow> ''nfl'' | Some s \<Rightarrow> s), config = None\<rparr>"
| "endpoint_map (GetTrendingPlayers s t lb lim) =
     \<lparr>url = ''/players/'' @ s @ ''/trending/'' @ (case t of Add \<Rightarrow> ''add'' | Drop \<Rightarrow> ''drop''),
      config = Some (query (case lb of None \<Rightarrow> Whole 24 | Some n \<Rightarrow> n)
                           (case lim of None \<Rightarrow> Whole 25 | Some n \<Rightarrow> n))\<rparr>"

section \<open>What the specification names\<close>

text \<open>
  The normalized message the specification lists for each of the five status codes it
  names.
\<close>

definition normalized_messages :: "(54 word \<times> string) list" where
  "normalized_messages =
     [(400, ''Bad Request: Your request is invalid.''),
      (404, ''Not Found: The requested resource could not be found.''),
      (429, ''Too Many Requests: You are being rate limited.''),
      (500, ''Internal Server Error: Problem with the server.''),
      (503, ''Service Unavailable: The service is temporarily offline.'')]"

text \<open>
  The number a decimal text denotes: an optional minus sign, then digits read from the
  left. It is the reading against which the text of a status code is checked.
\<close>

definition digit_value :: "char \<Rightarrow> nat" where
  "digit_value c = of_char c - 48"

definition digits_value :: "string \<Rightarrow> nat" where
  "digits_value s = foldl (\<lambda>n c. 10 * n + digit_value c) 0 s"

definition decimal_value :: "string \<Rightarrow> int" where
  "decimal_value s =
     (case s of
        [] \<Rightarrow> 0
      | c # cs \<Rightarrow> if c = CHR ''-'' then - int (digits_value cs) else int (digits_value s))"

text \<open>
  The classification policy of the specification, in the order in which the code applies
  it: the test for a transport error first, then the response, then the request. A property
  is read as \<^verbatim>\<open>undefined\<close> where there is nothing to read from.
\<close>

datatype branch = StatusCode | NoResponse | TransportMessage | Unknown

definition field :: "jsval \<Rightarrow> string \<Rightarrow> jsval" where
  "field v p = (case get_property v p of None \<Rightarrow> JUndefined | Some x \<Rightarrow> x)"

definition classify :: "jsval \<Rightarrow> branch" where
  "classify error =
     (if isAxiosError error then
        (if truthy (field error ''response'') then StatusCode
         else if truthy (field error ''request'') then NoResponse
         else TransportMessage)
      else Unknown)"

text \<open>
  What each branch throws. The generic unexpected error and the transport error carry the
  text of a value, and there is none to carry when the value cannot be converted; the
  status-code branch throws the listed message for a listed code and the generic
  unexpected error for any other status.
\<close>

definition unexpected_error :: "jsval \<Rightarrow> thrown" where
  "unexpected_error v =
     (case to_string v of None \<Rightarrow> TypeError | Some t \<Rightarrow> Error (''Unexpected Error: '' @ t))"

definition transport_error :: "jsval \<Rightarrow> thrown" where
  "transport_error v =
     (case to_string v of None \<Rightarrow> TypeError | Some t \<Rightarrow> Error (''Axios Error: '' @ t))"

definition status_error :: "jsval \<Rightarrow> thrown" where
  "status_error status =
     (case map_of (map (\<lambda>(code, m). (JNum (Whole code), m)) normalized_messages) status of
        Some m \<Rightarrow> Error m
      | None \<Rightarrow> unexpected_error status)"

definition translate :: "jsval \<Rightarrow> thrown" where
  "translate error =
     (case classify error of
        StatusCode \<Rightarrow> status_error (field (field error ''response'') ''status'')
      | NoResponse \<Rightarrow> Error ''No response received from the server.''
      | TransportMessage \<Rightarrow> transport_error (field error ''message'')
      | Unknown \<Rightarrow>
          (case get_property error ''message'' of
             None \<Rightarrow> TypeError
           | Some m \<Rightarrow> unexpected_error m))"

text \<open>No object in the value, at any depth, has an own \<^verbatim>\<open>toString\<close> property.\<close>

fun toString_free :: "jsval \<Rightarrow> bool" where
  "toString_free (JArr xs) = (\<forall>x \<in> set xs. toString_free x)"
| "toString_free (JObj fs) =
     (''toString'' \<notin> fst ` set fs \<and> (\<forall>kv \<in> set fs. toString_free (snd kv)))"
| "toString_free v = True"

section \<open>Fixtures\<close>

text \<open>
  The failures the repository's tests inject (without their \<^verbatim>\<open>toJSON\<close> function, which
  nothing reads), a plain \<^verbatim>\<open>Error\<close> object, and the tests' stub: a transport that answers
  one request as told and anything else with \<^verbatim>\<open>undefined\<close>.
\<close>

definition response_failure :: "54 word \<Rightarrow> jsval" where
  "response_failure code =
     JObj [(''response'', JObj [(''status'', JNum (Whole code)), (''data'', JObj []),
                                (''headers'', JObj []), (''config'', JObj [])]),
           (''isAxiosError'', JBool True)]"

definition no_response_failure :: jsval where
  "no_response_failure = JObj [(''request'', JObj []), (''isAxiosError'', JBool True)]"

definition network_failure :: jsval where
  "network_failure = JObj [(''message'', JStr ''Network Error''), (''isAxiosError'', JBool True)]"

definition plain_error :: "string \<Rightarrow> jsval" where
  "plain_error message = JObj [(''message'', JStr message)]"

definition stub :: "request \<Rightarrow> settled \<Rightarrow> SleeperAPI" where
  "stub req s = \<lparr>axiosInstance = (\<lambda>r. if r = req then s else Fulfills JUndefined)\<rparr>"

definition sample_engine :: engine where
  "sample_engine v =
     ''Cannot read properties of '' @ (if v = JNull then ''null'' else ''undefined'')"

definition mock_user :: jsval where
  "mock_user =
     JObj [(''username'', JStr ''sleeperuser''), (''user_id'', JStr ''12345678''),
           (''display_name'', JStr ''SleeperUser''),
           (''avatar'', JStr ''cc12ec49965eb7856f84d71cf85306af'')]"

definition mock_trending_players :: jsval where
  "mock_trending_players =
     JArr [JObj [(''player_id'', JStr ''1111''), (''count'', JNum (Whole 45))]]"

definition ok_response :: "jsval \<Rightarrow> jsval" where
  "ok_response body =
     JObj [(''data'', body), (''status'', JNum (Whole 200)), (''statusText'', JStr ''OK''),
           (''headers'', JObj []), (''config'', JObj [])]"

section \<open>Properties of values and of the shared accessor body\<close>

lemma isAxiosError_object: "isAxiosError e \<Longrightarrow> \<exists>fs. e = JObj fs"
  by (cases e) simp_all

lemma get_property_nullish: "get_property v p = None \<longleftrightarrow> v = JUndefined \<or> v = JNull"
  by (cases v) (simp_all split: option.split)

lemma get_property_field:
  "v \<noteq> JUndefined \<Longrightarrow> v \<noteq> JNull \<Longrightarrow> get_property v p = Some (field v p)"
  using get_property_nullish [of v p] by (cases "get_property v p") (auto simp add: field_def)

lemma truthy_not_nullish: "truthy v \<Longrightarrow> v \<noteq> JUndefined \<and> v \<noteq> JNull"
  by (cases v) simp_all

lemma status_number_truthy: "get_property r ''status'' = Some (JNum n) \<Longrightarrow> truthy r"
  by (cases r) simp_all

text \<open>The decimal text of a number reads back as the number.\<close>

lemma digit_value_nth: "d < 10 \<Longrightarrow> digit_value (''0123456789'' ! d) = d"
proof -
  assume "d < 10"
  then have "d \<in> {0, 1, 2, 3, 4, 5, 6, 7, 8, 9}"
    by auto
  then show ?thesis
    by (auto simp add: digit_value_def)
qed

lemma digit_not_minus: "d < 10 \<Longrightarrow> ''0123456789'' ! d \<noteq> CHR ''-''"
proof -
  assume "d < 10"
  then have "d \<in> {0, 1, 2, 3, 4, 5, 6, 7, 8, 9}"
    by auto
  then show ?thesis
    by auto
qed

lemma digits_value_digits: "digits_value (digits n) = n"
proof (induction n rule: digits.induct)
  case (1 n)
  show ?case
  proof (cases "n < 10")
    case True
    then show ?thesis
      by (subst digits.simps) (simp add: digits_value_def digit_value_nth)
  next
    case False
    then have "digits_value (digits (n div 10)) = n div 10"
      using 1 by simp
    then show ?thesis
      using False
      by (subst digits.simps) (simp add: digits_value_def digit_value_nth)
  qed
qed

lemma digits_head: "\<exists>c cs. digits n = c # cs \<and> c \<noteq> CHR ''-''"
proof (induction n rule: digits.induct)
  case (1 n)
  show ?case
  proof (cases "n < 10")
    case True
    then show ?thesis
      by (subst digits.simps) (simp add: digit_not_minus)
  next
    case False
    then obtain c cs where "digits (n div 10) = c # cs" and "c \<noteq> CHR ''-''"
      using 1 by blast
    then show ?thesis
      using False by (subst digits.simps) simp
  qed
qed

lemma decimal_value_number_text: "decimal_value (number_text (Whole w)) = sint w"
proof (cases "sint w < 0")
  case True
  then show ?thesis
    by (simp add: decimal_value_def digits_value_digits)
next
  case False
  obtain c cs where "digits (nat (sint w)) = c # cs" and "c \<noteq> CHR ''-''"
    using digits_head by blast
  then show ?thesis
    using False digits_value_digits [of "nat (sint w)"]
    by (simp add: decimal_value_def)
qed

text \<open>A value without own \<^verbatim>\<open>toString\<close> properties has a text, and so have its parts.\<close>

lemma those_map_Some:
  "(\<And>x. x \<in> set xs \<Longrightarrow> \<exists>t. f x = Some t) \<Longrightarrow> \<exists>ts. those (map f xs) = Some ts"
proof (induction xs)
  case Nil
  show ?case by simp
next
  case (Cons x xs)
  then obtain t where "f x = Some t"
    by auto
  moreover from Cons obtain ts where "those (map f xs) = Some ts"
    by auto
  ultimately show ?case
    by simp
qed

lemma toString_free_text: "toString_free v \<Longrightarrow> \<exists>t. to_string v = Some t"
proof (induction v)
  case (JArr xs)
  have "\<exists>ts. those (map (\<lambda>x. if x = JUndefined \<or> x = JNull then Some [] else to_string x) xs)
          = Some ts"
    using JArr by (intro those_map_Some) auto
  then show ?case
    by auto
qed simp_all

lemma toString_free_property:
  "toString_free e \<Longrightarrow> get_property e p = Some v \<Longrightarrow> toString_free v"
proof (cases e)
  case (JObj fs)
  assume free: "toString_free e" and read: "get_property e p = Some v"
  show ?thesis
  proof (cases "map_of fs p")
    case None
    with JObj read show ?thesis
      by auto
  next
    case (Some x)
    with JObj read have "(p, v) \<in> set fs"
      by (auto dest: map_of_SomeD)
    with JObj free show ?thesis
      by fastforce
  qed
qed auto

lemma toString_free_field: "toString_free e \<Longrightarrow> toString_free (field e p)"
  using toString_free_property [of e p]
  by (cases "get_property e p") (simp_all add: field_def)

text \<open>Every accessor builds the request of its row of the endpoint map.\<close>

lemma invoke_endpoint_map: "invoke eng api c calls = get_data eng api (endpoint_map c) calls"
  by (cases c)
     (simp_all add: getUserByUsername_def getUserById_def getLeaguesForUser_def getLeague_def
        getRosters_def getUsersInLeague_def getMatchups_def getWinnersBracket_def
        getLosersBracket_def getTransactions_def getTradedPicks_def getState_def
        getDraftsForUser_def getDraftsForLeague_def getDraft_def getPicksInDraft_def
        getTradedPicksInDraft_def getAllPlayers_def getTrendingPlayers_def query_def
        sport_or_default_def split: option.split trending_type.split)

lemma get_data_calls: "snd (get_data eng api req calls) = calls @ [req]"
  by (simp add: get_data_def Let_def split: settled.split option.split)

lemma get_data_rejects:
  "axiosInstance api req = Rejects e \<Longrightarrow> handleError e = Inl t \<Longrightarrow>
   fst (get_data eng api req calls) = Rejected t"
  by (simp add: get_data_def catch_block_def)

lemma get_data_fulfills:
  "axiosInstance api req = Fulfills r \<Longrightarrow> get_property r ''data'' = Some d \<Longrightarrow>
   fst (get_data eng api req calls) = Resolved d"
  by (simp add: get_data_def)

text \<open>The \<^verbatim>\<open>switch\<close> on a numeric status of a transport failure.\<close>

lemma handleError_status:
  assumes "isAxiosError error"
    and "get_property error ''response'' = Some response"
    and "get_property response ''status'' = Some (JNum (Whole code))"
  shows "handleError error =
     (if code = 400 then Inl (Error ''Bad Request: Your request is invalid.'')
      else if code = 404 then Inl (Error ''Not Found: The requested resource could not be found.'')
      else if code = 429 then Inl (Error ''Too Many Requests: You are being rate limited.'')
      else if code = 500 then Inl (Error ''Internal Server Error: Problem with the server.'')
      else if code = 503 then
        Inl (Error ''Service Unavailable: The service is temporarily offline.'')
      else Inl (Error (''Unexpected Error: '' @ number_text (Whole code))))"
  using assms status_number_truthy [OF assms(3)]
  by (simp add: handleError_def)

text \<open>The translator against the policy, branch by branch.\<close>

lemma status_error_switch:
  "Inl (status_error st) =
     (if st = JNum (Whole 400) then
        Inl (Error ''Bad Request: Your request is invalid.'')
      else if st = JNum (Whole 404) then
        Inl (Error ''Not Found: The requested resource could not be found.'')
      else if st = JNum (Whole 429) then
        Inl (Error ''Too Many Requests: You are being rate limited.'')
      else if st = JNum (Whole 500) then
        Inl (Error ''Internal Server Error: Problem with the server.'')
      else if st = JNum (Whole 503) then
        Inl (Error ''Service Unavailable: The service is temporarily offline.'')
      else (case to_string st of
              None \<Rightarrow> Inl TypeError
            | Some text \<Rightarrow> Inl (Error (''Unexpected Error: '' @ text)))
      :: thrown + jsval)"
  by (auto simp add: status_error_def normalized_messages_def unexpected_error_def
        split: option.split)

lemma handleError_flagged_response:
  assumes "isAxiosError e" and "truthy (field e ''response'')"
  shows "handleError e = Inl (status_error (field (field e ''response'') ''status''))"
proof -
  obtain fs where "e = JObj fs"
    using assms(1) isAxiosError_object by blast
  then have "e \<noteq> JUndefined" and "e \<noteq> JNull"
    by simp_all
  then have r: "get_property e ''response'' = Some (field e ''response'')"
    by (rule get_property_field)
  have st: "get_property (field e ''response'') ''status'' =
      Some (field (field e ''response'') ''status'')"
    using truthy_not_nullish [OF assms(2)] by (simp add: get_property_field)
  show ?thesis
    unfolding status_error_switch
    using assms r st by (simp add: handleError_def)
qed

lemma handleError_flagged_no_response:
  assumes "isAxiosError e" and "\<not> truthy (field e ''response'')"
  shows "handleError e =
     Inl (if truthy (field e ''request'') then Error ''No response received from the server.''
          else transport_error (field e ''message''))"
proof -
  obtain fs where "e = JObj fs"
    using assms(1) isAxiosError_object by blast
  then have "e \<noteq> JUndefined" and "e \<noteq> JNull"
    by simp_all
  then have "get_property e ''response'' = Some (field e ''response'')"
    and "get_property e ''request'' = Some (field e ''request'')"
    and "get_property e ''message'' = Some (field e ''message'')"
    by (rule get_property_field)+
  with assms show ?thesis
    by (simp add: handleError_def transport_error_def split: option.split)
qed

lemma handleError_unflagged:
  assumes "\<not> isAxiosError e"
  shows "handleError e =
     Inl (case get_property e ''message'' of None \<Rightarrow> TypeError | Some m \<Rightarrow> unexpected_error m)"
  using assms by (simp add: handleError_def unexpected_error_def split: option.split)

lemma handleError_translate: "handleError e = Inl (translate e)"
proof (cases "isAxiosError e")
  case False
  then show ?thesis
    using handleError_unflagged [of e] by (simp add: translate_def classify_def)
next
  case True
  show ?thesis
  proof (cases "truthy (field e ''response'')")
    case True
    with \<open>isAxiosError e\<close> show ?thesis
      using handleError_flagged_response [of e] by (simp add: translate_def classify_def)
  next
    case False
    with \<open>isAxiosError e\<close> show ?thesis
      using handleError_flagged_no_response [of e] by (simp add: translate_def classify_def)
  qed
qed

lemma translate_toString_free:
  assumes "e \<noteq> JUndefined" and "e \<noteq> JNull" and "toString_free e"
  shows "\<exists>m. translate e = Error m"
proof -
  have rendered: "\<exists>t. to_string (field (field e p) q) = Some t"
    "\<exists>t. to_string (field e p) = Some t" for p q
    using assms(3) toString_free_field toString_free_text by blast+
  have msg: "get_property e ''message'' = Some (field e ''message'')"
    using assms by (simp add: get_property_field)
  obtain t1 where t1: "to_string (field (field e ''response'') ''status'') = Some t1"
    using rendered(1) by blast
  obtain t2 where t2: "to_string (field e ''message'') = Some t2"
    using rendered(2) by blast
  show ?thesis
    using t1 t2 msg
    by (cases "classify e")
       (auto simp add: translate_def status_error_def unexpected_error_def transport_error_def
          split: option.split)
qed

text \<open>An omitted thumbnail flag is the flag \<^verbatim>\<open>false\<close>.\<close>

lemma getAvatarUrl_default: "getAvatarUrl s None = getAvatarUrl s (Some False)"
  by (simp add: getAvatarUrl_def)

text \<open>
  The repository's test that passes \<^verbatim>\<open>NaN\<close> as the round: the stub is armed for another
  path, so it answers \<^verbatim>\<open>undefined\<close>, reading \<^verbatim>\<open>data\<close> raises inside the \<^verbatim>\<open>try\<close>, and the
  accessor rejects with the unknown-error message around the engine's text.
\<close>

lemma getTransactions_NaN_test:
  "getTransactions sample_engine
     (stub \<lparr>url = ''/league/289646328504385536/transactions/invalidRound'', config = None\<rparr>
           (Rejects (response_failure 400)))
     ''289646328504385536'' NaN [] =
   (Rejected (Error ''Unexpected Error: Cannot read properties of undefined''),
    [\<lparr>url = ''/league/289646328504385536/transactions/NaN'', config = None\<rparr>])"
  by (simp add: getTransactions_def get_data_def stub_def catch_block_def handleError_def
        sample_engine_def)

section \<open>The avatar URL utility\<close>

text \<open>
  Claim C9. The avatar URL utility is a function of its two arguments alone: for every
  avatar identifier, with the thumbnail flag false it returns the CDN base, a slash and the
  identifier, and with the flag true the CDN base, \<^verbatim>\<open>/thumbs/\<close> and the identifier; so
  \<^verbatim>\<open>abc123\<close> gives \<^verbatim>\<open>https://sleepercdn.com/avatars/abc123\<close> and
  \<^verbatim>\<open>https://sleepercdn.com/avatars/thumbs/abc123\<close>.
\<close>

theorem getAvatarUrl_concatenates:
  "getAvatarUrl s (Some False) = ''https://sleepercdn.com/avatars/'' @ s \<and>
   getAvatarUrl s (Some True) = ''https://sleepercdn.com/avatars/thumbs/'' @ s \<and>
   getAvatarUrl ''abc123'' (Some False) = ''https://sleepercdn.com/avatars/abc123'' \<and>
   getAvatarUrl ''abc123'' (Some True) = ''https://sleepercdn.com/avatars/thumbs/abc123''"
  by (simp add: getAvatarUrl_def)

theorem getAvatarUrl_concatenates_witness:
  "getAvatarUrl ''cc12ec49965eb7856f84d71cf85306af'' (Some True) =
     ''https://sleepercdn.com/avatars/thumbs/cc12ec49965eb7856f84d71cf85306af''"
  using getAvatarUrl_concatenates [of "''cc12ec49965eb7856f84d71cf85306af''"] by simp

section \<open>The branches of the error translator\<close>

text \<open>
  Claim C1, as the code has it. For every failure classified as a transport error whose
  server response carries one of the status codes 400, 404, 429, 500 and 503, the
  translator throws an error with exactly the normalized message listed for that code, and
  so every accessor whose transport rejects its request with such a failure fails with
  that message.
\<close>

theorem handleError_listed_status_message:
  assumes "isAxiosError error"
    and "get_property error ''response'' = Some response"
    and "get_property response ''status'' = Some (JNum (Whole code))"
    and "map_of normalized_messages code = Some msg"
  shows "handleError error = Inl (Error msg) \<and>
         (axiosInstance api (endpoint_map call) = Rejects error \<longrightarrow>
            fst (invoke eng api call calls) = Rejected (Error msg))"
proof -
  have thrown: "handleError error = Inl (Error msg)"
    using assms(4) handleError_status [OF assms(1-3)]
    by (auto simp add: normalized_messages_def split: if_splits)
  then show ?thesis
    by (simp add: invoke_endpoint_map get_data_rejects)
qed

theorem handleError_listed_status_message_witness:
  "handleError (response_failure 400) = Inl (Error ''Bad Request: Your request is invalid.'') \<and>
   handleError (response_failure 404) =
     Inl (Error ''Not Found: The requested resource could not be found.'') \<and>
   handleError (response_failure 429) =
     Inl (Error ''Too Many Requests: You are being rate limited.'') \<and>
   handleError (response_failure 500) =
     Inl (Error ''Internal Server Error: Problem with the server.'') \<and>
   handleError (response_failure 503) =
     Inl (Error ''Service Unavailable: The service is temporarily offline.'') \<and>
   fst (invoke sample_engine
          (stub (endpoint_map (GetUserByUsername ''nonexistentuser''))
                (Rejects (response_failure 404)))
          (GetUserByUsername ''nonexistentuser'') []) =
     Rejected (Error ''Not Found: The requested resource could not be found.'')"
proof -
  have resp: "get_property (response_failure c) ''response'' =
      Some (JObj [(''status'', JNum (Whole c)), (''data'', JObj []),
                  (''headers'', JObj []), (''config'', JObj [])])" for c
    by (simp add: response_failure_def)
  have ax: "isAxiosError (response_failure c)" for c
    by (simp add: response_failure_def)
  have st: "get_property (JObj [(''status'', JNum (Whole c)), (''data'', JObj []),
                  (''headers'', JObj []), (''config'', JObj [])]) ''status'' =
      Some (JNum (Whole c))" for c
    by simp
  note inst = handleError_listed_status_message [OF ax resp st]
  have m400: "map_of normalized_messages 400 = Some ''Bad Request: Your request is invalid.''"
    and m404: "map_of normalized_messages 404 =
                 Some ''Not Found: The requested resource could not be found.''"
    and m429: "map_of normalized_messages 429 =
                 Some ''Too Many Requests: You are being rate limited.''"
    and m500: "map_of normalized_messages 500 =
                 Some ''Internal Server Error: Problem with the server.''"
    and m503: "map_of normalized_messages 503 =
                 Some ''Service Unavailable: The service is temporarily offline.''"
    by (simp_all add: normalized_messages_def)
  have stubbed: "axiosInstance
       (stub (endpoint_map (GetUserByUsername ''nonexistentuser''))
             (Rejects (response_failure 404)))
       (endpoint_map (GetUserByUsername ''nonexistentuser'')) = Rejects (response_failure 404)"
    by (simp add: stub_def)
  show ?thesis
    using inst [OF m400] inst [OF m429] inst [OF m500] inst [OF m503]
      inst [OF m404,
        of "stub (endpoint_map (GetUserByUsername ''nonexistentuser''))
                 (Rejects (response_failure 404))"
           "GetUserByUsername ''nonexistentuser''" sample_engine "[]"]
      stubbed
    by simp
qed

text \<open>
  The claim as written fails at a failure whose response carries the status 404 but which
  is not flagged as a transport error: the translator, and so the accessor, gives the
  unknown-error message.
\<close>

theorem unflagged_listed_status_not_translated:
  "handleError (JObj [(''response'', JObj [(''status'', JNum (Whole 404))])]) =
     Inl (Error ''Unexpected Error: undefined'') \<and>
   fst (invoke sample_engine
          (stub (endpoint_map (GetUserByUsername ''nonexistentuser''))
                (Rejects (JObj [(''response'', JObj [(''status'', JNum (Whole 404))])])))
          (GetUserByUsername ''nonexistentuser'') []) =
     Rejected (Error ''Unexpected Error: undefined'')"
  by (simp add: handleError_def getUserByUsername_def get_data_def stub_def catch_block_def)

text \<open>
  Claim C5, as the code has it. For every failure classified as a transport error that
  carries a server response whose status code is a whole number other than 400, 404, 429,
  500 and 503 (418, say), the translator throws the generic message
  \<^verbatim>\<open>Unexpected Error: \<close> followed by that status code in decimal digits: the text after
  the prefix reads back as the code.
\<close>

theorem handleError_unlisted_status:
  assumes "isAxiosError error"
    and "get_property error ''response'' = Some response"
    and "get_property response ''status'' = Some (JNum (Whole code))"
    and "code \<notin> {400, 404, 429, 500, 503}"
  shows "handleError error = Inl (Error (''Unexpected Error: '' @ number_text (Whole code))) \<and>
         decimal_value (number_text (Whole code)) = sint code"
  using assms(4) handleError_status [OF assms(1-3)] decimal_value_number_text [of code]
  by simp

theorem handleError_unlisted_status_witness:
  "handleError (response_failure 418) = Inl (Error ''Unexpected Error: 418'') \<and>
   decimal_value ''418'' = 418"
proof -
  have "isAxiosError (response_failure 418)"
    by (simp add: response_failure_def)
  moreover have "get_property (response_failure 418) ''response'' =
      Some (JObj [(''status'', JNum (Whole 418)), (''data'', JObj []),
                  (''headers'', JObj []), (''config'', JObj [])])"
    by (simp add: response_failure_def)
  moreover have "get_property (JObj [(''status'', JNum (Whole 418)), (''data'', JObj []),
                  (''headers'', JObj []), (''config'', JObj [])]) ''status'' =
      Some (JNum (Whole 418))"
    by simp
  moreover have "(418 :: 54 word) \<notin> {400, 404, 429, 500, 503}"
    by simp
  ultimately have "handleError (response_failure 418) =
      Inl (Error (''Unexpected Error: '' @ number_text (Whole 418))) \<and>
      decimal_value (number_text (Whole 418)) = sint (418 :: 54 word)"
    by (rule handleError_unlisted_status)
  then show ?thesis
    by (simp add: digits.simps)
qed

text \<open>
  The claim as written fails at a failure whose response carries the status 418 but which
  is not flagged as a transport error: the message thrown does not contain the code.
\<close>

theorem unflagged_unlisted_status_not_reported:
  "handleError (JObj [(''response'', JObj [(''status'', JNum (Whole 418))])]) =
     Inl (Error ''Unexpected Error: undefined'')"
  by (simp add: handleError_def)

text \<open>
  Claim C6. For every transport failure that has a request but no response object, the
  translator throws an error whose message is exactly
  \<^verbatim>\<open>No response received from the server.\<close>
\<close>

theorem handleError_no_response:
  assumes "isAxiosError error"
    and "get_property error ''response'' = Some response" and "\<not> truthy response"
    and "get_property error ''request'' = Some request" and "truthy request"
  shows "handleError error = Inl (Error ''No response received from the server.'')"
  using assms by (simp add: handleError_def)

theorem handleError_no_response_witness:
  "handleError no_response_failure = Inl (Error ''No response received from the server.'')"
  using handleError_no_response [of no_response_failure JUndefined "JObj []"]
  by (simp add: no_response_failure_def)

text \<open>
  Claim C7. For every failure classified as a transport error that exposes only a message
  (no response object and no request object), the translator throws an error whose message
  is \<^verbatim>\<open>Axios Error: \<close> followed by the original message text, which the thrown message
  therefore contains.
\<close>

theorem handleError_transport_message:
  assumes "isAxiosError error"
    and "get_property error ''response'' = Some response" and "\<not> truthy response"
    and "get_property error ''request'' = Some request" and "\<not> truthy request"
    and "get_property error ''message'' = Some (JStr message)"
  shows "handleError error = Inl (Error (''Axios Error: '' @ message))"
  using assms by (simp add: handleError_def)

theorem handleError_transport_message_witness:
  "handleError network_failure = Inl (Error ''Axios Error: Network Error'')"
  using handleError_transport_message
      [of network_failure JUndefined JUndefined "''Network Error''"]
  by (simp add: network_failure_def)

text \<open>
  Claim C10. For every failure value that is not classified as a transport error and whose
  \<^verbatim>\<open>message\<close> reads as \<^verbatim>\<open>undefined\<close> (it carries no message field), the translator throws
  an error whose message is exactly \<^verbatim>\<open>Unexpected Error: undefined\<close>: the placeholder is
  embedded verbatim.
\<close>

theorem handleError_undefined_message:
  assumes "\<not> isAxiosError error" and "get_property error ''message'' = Some JUndefined"
  shows "handleError error = Inl (Error ''Unexpected Error: undefined'')"
  using assms by (simp add: handleError_def)

theorem handleError_undefined_message_witness:
  "handleError (JObj [(''code'', JStr ''ECONNRESET'')]) =
     Inl (Error ''Unexpected Error: undefined'') \<and>
   handleError (JStr ''boom'') = Inl (Error ''Unexpected Error: undefined'')"
  using handleError_undefined_message [of "JObj [(''code'', JStr ''ECONNRESET'')]"]
    handleError_undefined_message [of "JStr ''boom''"]
  by simp

text \<open>
  Claim C3, as the code has it. The translator never returns normally: every failure value
  makes it throw, by exactly one of its four branches, and what it throws is what the
  policy gives that branch. For every failure value other than \<^verbatim>\<open>undefined\<close> and
  \<^verbatim>\<open>null\<close> in which no object has an own \<^verbatim>\<open>toString\<close> property this is a normalized
  error. Every accessor whose transport rejects its request makes its one call and rejects
  with what the translator threw; it never resolves.
\<close>

theorem handleError_always_throws:
  "handleError e = Inl (translate e) \<and>
   (e \<noteq> JUndefined \<and> e \<noteq> JNull \<and> toString_free e \<longrightarrow>
      (\<exists>m. handleError e = Inl (Error m))) \<and>
   (axiosInstance api (endpoint_map call) = Rejects e \<longrightarrow>
      invoke eng api call calls = (Rejected (translate e), calls @ [endpoint_map call]))"
proof -
  have thrown: "handleError e = Inl (translate e)"
    by (rule handleError_translate)
  have "axiosInstance api (endpoint_map call) = Rejects e \<Longrightarrow>
        invoke eng api call calls = (Rejected (translate e), calls @ [endpoint_map call])"
    using get_data_rejects [of api "endpoint_map call" e "translate e" eng calls] thrown
      get_data_calls [of eng api "endpoint_map call" calls]
    by (simp add: invoke_endpoint_map prod_eq_iff)
  with thrown translate_toString_free [of e] show ?thesis
    by auto
qed

theorem handleError_always_throws_witness:
  "handleError no_response_failure = Inl (Error ''No response received from the server.'') \<and>
   invoke sample_engine
     (stub (endpoint_map (GetMatchups ''289646328504385536'' (Whole 1)))
           (Rejects no_response_failure))
     (GetMatchups ''289646328504385536'' (Whole 1)) [] =
     (Rejected (Error ''No response received from the server.''),
      [\<lparr>url = ''/league/289646328504385536/matchups/1'', config = None\<rparr>])"
proof -
  have policy: "translate no_response_failure = Error ''No response received from the server.''"
    by (simp add: translate_def classify_def field_def no_response_failure_def)
  have free: "no_response_failure \<noteq> JUndefined \<and> no_response_failure \<noteq> JNull \<and>
      toString_free no_response_failure"
    by (simp add: no_response_failure_def)
  have stubbed: "axiosInstance
       (stub (endpoint_map (GetMatchups ''289646328504385536'' (Whole 1)))
             (Rejects no_response_failure))
       (endpoint_map (GetMatchups ''289646328504385536'' (Whole 1))) =
       Rejects no_response_failure"
    by (simp add: stub_def)
  show ?thesis
    using policy free stubbed
      handleError_always_throws [of no_response_failure
        "stub (endpoint_map (GetMatchups ''289646328504385536'' (Whole 1)))
              (Rejects no_response_failure)"
        "GetMatchups ''289646328504385536'' (Whole 1)" sample_engine "[]"]
    by (simp add: digits.simps)
qed

text \<open>
  The claim as written fails at \<^verbatim>\<open>null\<close>, where the translator takes its last branch and
  reading \<^verbatim>\<open>message\<close> raises, and at a failure whose message is an object with an own
  \<^verbatim>\<open>toString\<close> property, which the template literal cannot convert: the engine's
  TypeError, not a normalized error, is what the translator throws and what the accessor
  rejects with.
\<close>

theorem handleError_null_not_normalized:
  "handleError JNull = Inl TypeError \<and>
   handleError (JObj [(''message'', JObj [(''toString'', JNum (Whole 1))])]) = Inl TypeError \<and>
   fst (invoke sample_engine
          (stub (endpoint_map (GetDraft ''257270643320426496'')) (Rejects JNull))
          (GetDraft ''257270643320426496'') []) = Rejected TypeError"
  by (simp add: handleError_def getDraft_def get_data_def stub_def catch_block_def)

text \<open>
  Claim C4, as the code has it. The test for a transport error comes first. A failure
  classified as a transport error that carries a response is translated by the status of
  that response alone, whatever its request, its message and its other properties; one
  that carries no response is translated by its request, or else by its message as a
  transport error. Every failure not classified as a transport error, and no other, is
  translated as an unknown error from its message, also when it carries a response with a
  status code.
\<close>

theorem transport_test_before_status:
  "(isAxiosError e \<and> truthy (field e ''response'') \<longrightarrow>
      handleError e = Inl (status_error (field (field e ''response'') ''status''))) \<and>
   (isAxiosError e \<and> \<not> truthy (field e ''response'') \<longrightarrow>
      handleError e =
        Inl (if truthy (field e ''request'')
             then Error ''No response received from the server.''
             else transport_error (field e ''message''))) \<and>
   (\<not> isAxiosError e \<longrightarrow>
      handleError e =
        Inl (case get_property e ''message'' of
               None \<Rightarrow> TypeError
             | Some m \<Rightarrow> unexpected_error m))"
  using handleError_flagged_response [of e] handleError_flagged_no_response [of e]
    handleError_unflagged [of e]
  by blast

theorem transport_test_before_status_witness:
  "handleError (JObj [(''message'', JStr ''Request failed with status code 404''),
                      (''request'', JObj []),
                      (''response'', JObj [(''status'', JNum (Whole 404))]),
                      (''isAxiosError'', JBool True)]) =
     Inl (Error ''Not Found: The requested resource could not be found.'') \<and>
   handleError network_failure = Inl (Error ''Axios Error: Network Error'') \<and>
   handleError (plain_error ''Unexpected Error'') =
     Inl (Error ''Unexpected Error: Unexpected Error'')"
  using transport_test_before_status
      [of "JObj [(''message'', JStr ''Request failed with status code 404''),
                 (''request'', JObj []),
                 (''response'', JObj [(''status'', JNum (Whole 404))]),
                 (''isAxiosError'', JBool True)]"]
    transport_test_before_status [of network_failure]
    transport_test_before_status [of "plain_error ''Unexpected Error''"]
  by (simp add: field_def status_error_def normalized_messages_def transport_error_def
        unexpected_error_def network_failure_def plain_error_def)

text \<open>
  The claim as written fails at a failure that carries a response with status 404 but is
  not flagged as a transport error: it is translated as an unknown error.
\<close>

theorem unflagged_response_takes_unknown_branch:
  "handleError (JObj [(''response'', JObj [(''status'', JNum (Whole 404))]),
                      (''message'', JStr ''boom'')]) =
     Inl (Error ''Unexpected Error: boom'')"
  by (simp add: handleError_def)

section \<open>The accessors\<close>

text \<open>
  Claim C2. For every accessor and every input, exactly one GET call is made, for the
  request of the accessor's row of the endpoint map; and when the injected transport
  resolves that request to a response, the accessor resolves with that response's body as
  it is.
\<close>

theorem accessor_resolves_with_body:
  "snd (invoke eng api call calls) = calls @ [endpoint_map call] \<and>
   (axiosInstance api (endpoint_map call) = Fulfills response \<and>
    get_property response ''data'' = Some body \<longrightarrow>
      fst (invoke eng api call calls) = Resolved body)"
  by (simp add: invoke_endpoint_map get_data_calls get_data_fulfills)

theorem accessor_resolves_with_body_witness:
  "invoke sample_engine
     (stub \<lparr>url = ''/user/sleeperuser'', config = None\<rparr> (Fulfills (ok_response mock_user)))
     (GetUserByUsername ''sleeperuser'') [] =
     (Resolved mock_user, [\<lparr>url = ''/user/sleeperuser'', config = None\<rparr>]) \<and>
   invoke sample_engine
     (stub \<lparr>url = ''/players/nfl/trending/add'',
             config = Some (query (Whole 24) (Whole 25))\<rparr>
           (Fulfills (ok_response mock_trending_players)))
     (GetTrendingPlayers ''nfl'' Add None None) [] =
     (Resolved mock_trending_players,
      [\<lparr>url = ''/players/nfl/trending/add'',
        config = Some (query (Whole 24) (Whole 25))\<rparr>])"
  using accessor_resolves_with_body
      [of sample_engine
          "stub \<lparr>url = ''/user/sleeperuser'', config = None\<rparr> (Fulfills (ok_response mock_user))"
          "GetUserByUsername ''sleeperuser''" "[]" "ok_response mock_user" mock_user]
    accessor_resolves_with_body
      [of sample_engine
          "stub \<lparr>url = ''/players/nfl/trending/add'',
                  config = Some (query (Whole 24) (Whole 25))\<rparr>
                (Fulfills (ok_response mock_trending_players))"
          "GetTrendingPlayers ''nfl'' Add None None" "[]"
          "ok_response mock_trending_players" mock_trending_players]
  by (simp add: stub_def ok_response_def prod_eq_iff)

text \<open>
  Claim C8. For every sport and trending type, the trending-players accessor called
  without lookback and limit sends its GET request to
  \<^verbatim>\<open>/players/{sport}/trending/{type}\<close> with the query parameters \<^verbatim>\<open>lookback_hours\<close> 24
  and \<^verbatim>\<open>limit\<close> 25.
\<close>

theorem getTrendingPlayers_default_query:
  "snd (getTrendingPlayers eng api sport type None None calls) =
     calls @ [\<lparr>url = ''/players/'' @ sport @ ''/trending/'' @ trending_text type,
               config = Some (JObj [(''params'',
                          JObj [(''lookback_hours'', JNum (Whole 24)),
                                (''limit'', JNum (Whole 25))])])\<rparr>]"
  by (simp add: getTrendingPlayers_def get_data_calls)

theorem getTrendingPlayers_default_query_witness:
  "snd (getTrendingPlayers sample_engine
          (stub \<lparr>url = ''/players/nfl/trending/add'',
                  config = Some (query (Whole 24) (Whole 25))\<rparr>
                (Fulfills (ok_response mock_trending_players)))
          ''nfl'' Add None None []) =
     [\<lparr>url = ''/players/nfl/trending/add'',
       config = Some (JObj [(''params'',
                  JObj [(''lookback_hours'', JNum (Whole 24)),
                        (''limit'', JNum (Whole 25))])])\<rparr>]"
  using getTrendingPlayers_default_query
      [of sample_engine
          "stub \<lparr>url = ''/players/nfl/trending/add'',
                  config = Some (query (Whole 24) (Whole 25))\<rparr>
                (Fulfills (ok_response mock_trending_players))"
          "''nfl''" Add "[]"]
  by simp

end
